theory Spec2Isabelle
  imports Complex_Main
begin

section \<open>JSON values and the Python operations applied to them\<close>

text \<open>
  Both front ends move JSON-shaped Python values around: \<open>None\<close>, booleans, ints,
  floats, strings, lists and dicts. A dict is an association list in insertion order
  (its keys are distinct, as \<open>json.loads\<close> and dict literals produce them).
  Python floats are modelled by the real number they stand for: the arithmetic of the
  source (\<open>/\<close>, \<open>*\<close>, \<open>+\<close>) is exact in the model, where the interpreter rounds to
  the nearest double.
\<close>

datatype json =
    JNull
  | JBool bool
  | JInt int
  | JFloat real
  | JStr string
  | JArr "json list"
  | JObj "(string \<times> json) list"

datatype py_exception =
    AttributeError string
  | TypeError string
  | ZeroDivisionError string
  | OverflowError string
  | ValueError string

text \<open>\<open>str(e)\<close>: the message the exception was raised with.\<close>

fun str_exc :: "py_exception \<Rightarrow> string" where
  "str_exc (AttributeError m) = m"
| "str_exc (TypeError m) = m"
| "str_exc (ZeroDivisionError m) = m"
| "str_exc (OverflowError m) = m"
| "str_exc (ValueError m) = m"

definition quoted :: "string \<Rightarrow> string" where
  "quoted s = CHR 0x27 # s @ [CHR 0x27]"

text \<open>\<open>type(x).__name__\<close>, as the interpreter's error messages print it.\<close>

fun type_name :: "json \<Rightarrow> string" where
  "type_name JNull = ''NoneType''"
| "type_name (JBool b) = ''bool''"
| "type_name (JInt i) = ''int''"
| "type_name (JFloat r) = ''float''"
| "type_name (JStr s) = ''str''"
| "type_name (JArr xs) = ''list''"
| "type_name (JObj kvs) = ''dict''"

text \<open>
  \<open>x.get(k, d)\<close>: only a dict has the method; on every other JSON value the attribute
  lookup raises AttributeError.
\<close>

fun py_get :: "json \<Rightarrow> string \<Rightarrow> json \<Rightarrow> py_exception + json" where
  "py_get (JObj kvs) k d = Inr (case map_of kvs k of Some v \<Rightarrow> v | None \<Rightarrow> d)"
| "py_get x k d =
     Inl (AttributeError (quoted (type_name x) @ '' object has no attribute '' @ quoted ''get''))"

text \<open>
  \<open>len(x)\<close>: defined on strings, lists and dicts; a TypeError on the rest. (A \<open>char\<close> of
  a string stands for one code point of the Python string.)
\<close>

fun py_len :: "json \<Rightarrow> py_exception + nat" where
  "py_len (JStr s) = Inr (length s)"
| "py_len (JArr xs) = Inr (length xs)"
| "py_len (JObj kvs) = Inr (length kvs)"
| "py_len x = Inl (TypeError (''object of type '' @ quoted (type_name x) @ '' has no len()''))"

text \<open>Truth value testing, as \<open>x or y\<close> and \<open>if x:\<close> apply it.\<close>

fun truthy :: "json \<Rightarrow> bool" where
  "truthy JNull = False"
| "truthy (JBool b) = b"
| "truthy (JInt i) = (i \<noteq> 0)"
| "truthy (JFloat r) = (r \<noteq> 0)"
| "truthy (JStr s) = (s \<noteq> [])"
| "truthy (JArr xs) = (xs \<noteq> [])"
| "truthy (JObj kvs) = (kvs \<noteq> [])"

text \<open>\<open>str(n)\<close> for a natural number, as an f-string formats it.\<close>

fun str_nat :: "nat \<Rightarrow> string" where
  "str_nat n =
     (if n < 10 then [''0123456789'' ! n]
      else str_nat (n div 10) @ [''0123456789'' ! (n mod 10)])"

declare str_nat.simps [simp del]

text \<open>\<open>sep.join(xs)\<close>.\<close>

fun join :: "string \<Rightarrow> string list \<Rightarrow> string" where
  "join sep [] = []"
| "join sep [x] = x"
| "join sep (x # y # ys) = x @ sep @ join sep (y # ys)"


section \<open>The stdio worker (gama_operations.py)\<close>

subsection \<open>MockGAMAProcessor\<close>

record processor =
  model_path :: json
  device :: json
  quantization :: json
  initialized :: bool

text \<open>
  What the worker prints on stderr, one constructor per \<open>print(..., file=sys.stderr)\<close>
  and \<open>sys.stderr.write\<close> of the source, carrying the values its f-string interpolates.
\<close>

datatype log =
    Initializing json json
  | LoadingModel json json
  | ServiceStarted
  | ShuttingDown
  | ErrorProcessing py_exception
  | InvalidJSON string
  | ServiceStopped

text \<open>
  The constructor \<open>__init__\<close>; \<open>cuda\<close> is \<open>torch.cuda.is_available()\<close>.
\<close>

definition MockGAMAProcessor :: "bool \<Rightarrow> json \<Rightarrow> json \<Rightarrow> json \<Rightarrow> processor \<times> log list" where
  "MockGAMAProcessor cuda mp dev q =
     (let d = (if cuda then dev else JStr ''cpu'')
      in (\<lparr>model_path = mp, device = d, quantization = q, initialized = False\<rparr>,
          [Initializing mp d]))"

definition initialize :: "processor \<Rightarrow> processor \<times> log list" where
  "initialize p = (p\<lparr>initialized := True\<rparr>, [LoadingModel (model_path p) (device p)])"

text \<open>\<open>if not self.initialized: self.initialize()\<close>\<close>

definition ensure_initialized :: "processor \<Rightarrow> processor \<times> log list" where
  "ensure_initialized p = (if initialized p then (p, []) else initialize p)"

text \<open>
  The random draws: \<open>rnd k\<close> is the value the \<open>k\<close>-th call into numpy's generator
  returns to this process; the worker's state counts the calls made so far.
\<close>

definition word_text :: "nat \<Rightarrow> string" where
  "word_text i = ''Word '' @ str_nat (i + 1)"

definition segment :: "(nat \<Rightarrow> real) \<Rightarrow> nat \<Rightarrow> int \<Rightarrow> nat \<Rightarrow> json" where
  "segment rnd k segment_length i =
     JObj [(''text'', JStr (word_text i)),
           (''start'', JFloat (real_of_int (int i * segment_length) / 16000)),
           (''end'', JFloat (real_of_int ((int i + 1) * segment_length) / 16000)),
           (''confidence'', JFloat (0.8 + 0.2 * rnd (k + i)))]"

text \<open>
  \<open>process_audio(self, audio_data, options)\<close>. The result is the exception raised or
  the dict returned, with the processor and the draw counter as the call leaves them and
  the stderr lines it printed. The processor is initialised before the length of the
  input is taken, so it stays initialised when \<open>len\<close> raises. The transcription joins the
  \<open>text\<close> entries of the segments just built.
\<close>

definition process_audio ::
  "(nat \<Rightarrow> real) \<Rightarrow> nat \<Rightarrow> processor \<Rightarrow> json \<Rightarrow> json \<Rightarrow>
     (py_exception + json) \<times> processor \<times> nat \<times> log list" where
  "process_audio rnd k p audio_data options =
     (let (p1, logs) = ensure_initialized p
      in case py_len audio_data of
           Inl e \<Rightarrow> (Inl e, p1, k, logs)
         | Inr n \<Rightarrow>
             (let audio_length = int n;
                  word_count = max 1 (audio_length div 8000);
                  segment_length = audio_length div word_count;
                  ixs = [0..<nat word_count];
                  segments = map (segment rnd k segment_length) ixs
              in (Inr (JObj
                    [(''transcription'', JStr (join '' '' (map word_text ixs))),
                     (''confidence'', JFloat 0.9),
                     (''segments'', JArr segments),
                     (''duration'', JFloat (real_of_int audio_length / 16000)),
                     (''word_count'', JInt word_count),
                     (''processing_time'', JInt 500),
                     (''memory_usage'',
                        JObj [(''peak'', JInt (1024 * 1024 * 100)),
                              (''current'', JInt (1024 * 1024 * 50))])]),
                  p1, k + nat word_count, logs)))"

definition feature_dim :: nat where
  "feature_dim = 768"

definition feature_row :: "(nat \<Rightarrow> real) \<Rightarrow> nat \<Rightarrow> json" where
  "feature_row rnd k = JArr (map (\<lambda>i. JFloat (rnd (k + i))) [0..<feature_dim])"

definition extract_features ::
  "(nat \<Rightarrow> real) \<Rightarrow> nat \<Rightarrow> processor \<Rightarrow> json \<Rightarrow> json \<Rightarrow>
     (py_exception + json) \<times> processor \<times> nat \<times> log list" where
  "extract_features rnd k p audio_data options =
     (let (p1, logs) = ensure_initialized p;
          opts = (if truthy options then options else JObj [])
      in case py_get opts ''return_vector'' (JBool False) of
           Inl e \<Rightarrow> (Inl e, p1, k, logs)
         | Inr return_vector \<Rightarrow>
             if truthy return_vector then
               (Inr (JObj
                  [(''feature_vector'', feature_row rnd k),
                   (''processing_time'', JInt 300),
                   (''memory_usage'',
                      JObj [(''peak'', JInt (1024 * 1024 * 80)),
                            (''current'', JInt (1024 * 1024 * 40))])]),
                p1, k + feature_dim, logs)
             else
               (case py_len audio_data of
                  Inl e \<Rightarrow> (Inl e, p1, k, logs)
                | Inr n \<Rightarrow>
                    (let num_frames = max 1 (int n div 320);
                         features =
                           map (\<lambda>f. feature_row rnd (k + f * feature_dim)) [0..<nat num_frames]
                     in (Inr (JObj
                           [(''features'', JArr features),
                            (''metadata'',
                               JObj [(''type'', JStr ''gama_features''),
                                     (''dimensions'', JArr [JInt num_frames, JInt (int feature_dim)]),
                                     (''sample_rate'', JInt 16000),
                                     (''time_steps'', JInt num_frames)]),
                            (''processing_time'', JInt 300),
                            (''memory_usage'',
                               JObj [(''peak'', JInt (1024 * 1024 * 80)),
                                     (''current'', JInt (1024 * 1024 * 40))])]),
                         p1, k + nat num_frames * feature_dim, logs))))"

definition ping :: "processor \<Rightarrow> json" where
  "ping p =
     JObj [(''status'', JStr ''ok''),
           (''device'', device p),
           (''memory_available'',
              JInt (if device p = JStr ''cuda'' then 1024 * 1024 * 1024 * 6 else 0))]"


subsection \<open>The read loop of \<open>main\<close>\<close>

text \<open>
  An input line is modelled by what \<open>json.loads\<close> makes of it: it raises
  JSONDecodeError (the line is kept, the stderr diagnostic prints it), or it returns the
  parsed value, which may be any JSON value and not only an object.
\<close>

datatype line = Malformed string | Parsed json

datatype written = Stdout json | Stderr log

text \<open>
  The process environment: \<open>torch.cuda.is_available()\<close>, the random generator,
  Python's built-in \<open>str\<close> on a JSON value (what an f-string interpolates), and the three
  recognised variables of \<open>os.environ\<close>.
\<close>

record environment =
  cuda :: bool
  rnd :: "nat \<Rightarrow> real"
  str_json :: "json \<Rightarrow> string"
  GAMA_MODEL_PATH :: "string option"
  GAMA_DEVICE :: "string option"
  GAMA_QUANTIZATION :: "string option"

text \<open>The variables of \<open>main\<close> that the loop reads and assigns.\<close>

record worker =
  proc :: processor
  draws :: nat
  default_path :: string
  default_device :: string
  default_quantization :: string

text \<open>
  The inner \<open>try\<close> block: the \<open>if/elif\<close> chain on \<open>operation\<close>. It ends in one of
  three ways: it falls through to the response with \<open>result\<close> and \<open>error\<close> set
  (\<open>Answered\<close>), it leaves the loop by \<open>break\<close> (\<open>Broke\<close>), or it raises, with the worker
  as the statements before the raise left it (\<open>Raised\<close>).
\<close>

datatype dispatched =
    Answered json json worker "log list"
  | Broke "log list"
  | Raised py_exception worker "log list"

definition run_processor ::
  "worker \<Rightarrow> (py_exception + json) \<times> processor \<times> nat \<times> log list \<Rightarrow> dispatched" where
  "run_processor w r =
     (case r of
        (Inl e, p, k, logs) \<Rightarrow> Raised e (w\<lparr>proc := p, draws := k\<rparr>) logs
      | (Inr v, p, k, logs) \<Rightarrow> Answered v JNull (w\<lparr>proc := p, draws := k\<rparr>) logs)"

definition dispatch :: "environment \<Rightarrow> worker \<Rightarrow> json \<Rightarrow> json \<Rightarrow> dispatched" where
  "dispatch env w operation data =
     (if operation = JStr ''ping'' then Answered (ping (proc w)) JNull w []
      else if operation = JStr ''process_audio'' then
        (case py_get data ''audio'' (JObj []) of
           Inl e \<Rightarrow> Raised e w []
         | Inr audio \<Rightarrow>
             (case py_get audio ''data'' (JArr []) of
                Inl e \<Rightarrow> Raised e w []
              | Inr audio_data \<Rightarrow>
                  (case py_get data ''options'' JNull of
                     Inl e \<Rightarrow> Raised e w []
                   | Inr options \<Rightarrow>
                       run_processor w
                         (process_audio (rnd env) (draws w) (proc w) audio_data options))))
      else if operation = JStr ''extract_features'' then
        (case py_get data ''audio'' (JObj []) of
           Inl e \<Rightarrow> Raised e w []
         | Inr audio \<Rightarrow>
             (case py_get audio ''data'' (JArr []) of
                Inl e \<Rightarrow> Raised e w []
              | Inr audio_data \<Rightarrow>
                  (case py_get data ''options'' JNull of
                     Inl e \<Rightarrow> Raised e w []
                   | Inr options \<Rightarrow>
                       run_processor w
                         (extract_features (rnd env) (draws w) (proc w) audio_data options))))
      else if operation = JStr ''load_model'' then
        (case py_get data ''model_path'' (JStr (default_path w)) of
           Inl e \<Rightarrow> Raised e w []
         | Inr mp \<Rightarrow>
             (case py_get data ''options'' (JObj []) of
                Inl e \<Rightarrow> Raised e w []
              | Inr o1 \<Rightarrow>
                  (case py_get o1 ''device'' (JStr (default_device w)) of
                     Inl e \<Rightarrow> Raised e w []
                   | Inr dev \<Rightarrow>
                       (case py_get data ''options'' (JObj []) of
                          Inl e \<Rightarrow> Raised e w []
                        | Inr o2 \<Rightarrow>
                            (case py_get o2 ''quantization'' (JStr (default_quantization w)) of
                               Inl e \<Rightarrow> Raised e w []
                             | Inr q \<Rightarrow>
                                 (let (p0, logs0) = MockGAMAProcessor (cuda env) mp dev q;
                                      (p1, logs1) = initialize p0
                                  in Answered (JObj [(''status'', JStr ''ok'')]) JNull
                                       (w\<lparr>proc := p1\<rparr>) (logs0 @ logs1)))))))
      else if operation = JStr ''shutdown'' then Broke [ShuttingDown]
      else Answered JNull (JStr (''Unknown operation: '' @ str_json env operation)) w [])"

text \<open>
  One iteration of \<open>for line in sys.stdin\<close>: what it writes, and how it ends.
  \<open>Continue\<close> goes on to the next line, \<open>Break\<close> leaves the loop, \<open>Propagate\<close> is an
  exception that no handler of the loop catches: it leaves \<open>main\<close>.
\<close>

datatype step = Continue worker "written list" | Break "written list" | Propagate py_exception "written list"

definition response :: "json \<Rightarrow> json \<Rightarrow> json \<Rightarrow> json" where
  "response request_id result error =
     JObj [(''id'', request_id), (''result'', result), (''error'', error)]"

definition handle_line :: "environment \<Rightarrow> worker \<Rightarrow> line \<Rightarrow> step" where
  "handle_line env w l =
     (case l of
        Malformed raw \<Rightarrow> Continue w [Stderr (InvalidJSON raw)]
      | Parsed request \<Rightarrow>
          (case py_get request ''id'' JNull of
             Inl e \<Rightarrow> Propagate e []
           | Inr request_id \<Rightarrow>
               (case py_get request ''operation'' JNull of
                  Inl e \<Rightarrow> Propagate e []
                | Inr operation \<Rightarrow>
                    (case py_get request ''data'' (JObj []) of
                       Inl e \<Rightarrow> Propagate e []
                     | Inr data \<Rightarrow>
                         (case dispatch env w operation data of
                            Answered result error w' logs \<Rightarrow>
                              Continue w' (map Stderr logs @ [Stdout (response request_id result error)])
                          | Broke logs \<Rightarrow> Break (map Stderr logs)
                          | Raised e w' logs \<Rightarrow>
                              Continue w'
                                (map Stderr (logs @ [ErrorProcessing e]) @
                                 [Stdout (response request_id JNull (JStr (str_exc e)))]))))))"

datatype exit = Returned | Crashed py_exception

fun read_loop :: "environment \<Rightarrow> worker \<Rightarrow> line list \<Rightarrow> written list \<times> exit" where
  "read_loop env w [] = ([], Returned)"
| "read_loop env w (l # ls) =
     (case handle_line env w l of
        Continue w' out \<Rightarrow> (let (rest, x) = read_loop env w' ls in (out @ rest, x))
      | Break out \<Rightarrow> (out, Returned)
      | Propagate e out \<Rightarrow> (out, Crashed e))"

definition getenv :: "string option \<Rightarrow> string \<Rightarrow> string" where
  "getenv v d = (case v of Some s \<Rightarrow> s | None \<Rightarrow> d)"

text \<open>
  The statements of \<open>main\<close> before the loop: the defaults read from the environment, the
  processor built from them, and the two lines printed on stderr.
\<close>

definition start :: "environment \<Rightarrow> worker \<times> log list" where
  "start env =
     (let mp = getenv (GAMA_MODEL_PATH env) ''facebook/gama-7b'';
          dev = getenv (GAMA_DEVICE env) (if cuda env then ''cuda'' else ''cpu'');
          q = getenv (GAMA_QUANTIZATION env) ''8bit'';
          (p, logs) = MockGAMAProcessor (cuda env) (JStr mp) (JStr dev) (JStr q)
      in (\<lparr>proc = p, draws = 0, default_path = mp, default_device = dev,
           default_quantization = q\<rparr>,
          logs @ [ServiceStarted]))"

text \<open>
  \<open>main\<close> on the lines of standard input: everything it writes, in order, and whether
  it returned (the cleanup line is printed) or an exception left it.
\<close>

definition main :: "environment \<Rightarrow> line list \<Rightarrow> written list \<times> exit" where
  "main env lines =
     (let (w, logs) = start env;
          (out, x) = read_loop env w lines
      in (map Stderr logs @ out @
            (case x of Returned \<Rightarrow> [Stderr ServiceStopped] | Crashed e \<Rightarrow> []),
          x))"

text \<open>The lines written to standard output, in order.\<close>

fun stdout_of :: "written list \<Rightarrow> json list" where
  "stdout_of [] = []"
| "stdout_of (Stdout j # os) = j # stdout_of os"
| "stdout_of (Stderr l # os) = stdout_of os"


text \<open>What one iteration wrote.\<close>

fun written_by :: "step \<Rightarrow> written list" where
  "written_by (Continue w out) = out"
| "written_by (Break out) = out"
| "written_by (Propagate e out) = out"

text \<open>
  The variables of the loop when it has gone through the given lines and is still
  running; \<open>None\<close> when one of them ended it.
\<close>

fun state_after :: "environment \<Rightarrow> worker \<Rightarrow> line list \<Rightarrow> worker option" where
  "state_after env w [] = Some w"
| "state_after env w (l # ls) =
     (case handle_line env w l of
        Continue w' out \<Rightarrow> state_after env w' ls
      | Break out \<Rightarrow> None
      | Propagate e out \<Rightarrow> None)"

text \<open>The \<open>text\<close> entry of a segment dict (empty when there is none).\<close>

definition text_of :: "json \<Rightarrow> string" where
  "text_of s = (case py_get s ''text'' JNull of Inr (JStr t) \<Rightarrow> t | _ \<Rightarrow> [])"

text \<open>
  An environment to run examples in: no GPU, every draw 1/2, no variable set. Its \<open>str\<close>
  is Python's on strings and on \<open>None\<close>; the examples format nothing else.
\<close>

definition test_env :: environment where
  "test_env =
     \<lparr>cuda = False, rnd = (\<lambda>k. 1 / 2),
      str_json = (\<lambda>j. case j of JStr s \<Rightarrow> s | _ \<Rightarrow> ''None''),
      GAMA_MODEL_PATH = None, GAMA_DEVICE = None, GAMA_QUANTIZATION = None\<rparr>"

definition request_line :: "int \<Rightarrow> string \<Rightarrow> line" where
  "request_line i operation = Parsed (JObj [(''id'', JInt i), (''operation'', JStr operation)])"


section \<open>The HTTP facade (app/api/server.py)\<close>

text \<open>
  What can be raised inside the endpoints: the framework's \<open>HTTPException\<close> with its
  status code and detail, \<open>KeyError\<close> from subscripting the cache, \<open>UnboundLocalError\<close>
  for a local name read before its binding statement ran, \<open>TypeError\<close> for an unhashable
  key, \<open>ZeroDivisionError\<close>, and any exception the model libraries raise (by its
  message).
  The detail of an \<open>HTTPException\<close> is kept as the source builds it: the f-string of the
  400, or \<open>str(e)\<close> of the exception caught.
\<close>

datatype raised =
    HTTPException nat detail
  | KeyError json
  | UnboundLocalError string
  | Unhashable json
  | DivisionByZero
  | LibraryError string
and detail =
    NotLoaded json
  | StrOf raised

type_synonym handle = nat

record ModelConfig =
  name :: string
  path :: string
  parameters :: "(string \<times> json) list"

record AudioData =
  audio :: "real list"
  sampleRate :: int
  options :: "(string \<times> json) list"

record Metadata =
  model :: json
  shape :: "int list"
  timestamp :: real

record ProcessingResult =
  features :: "real list"
  metadata :: Metadata

record HealthStatus =
  status :: string
  models :: "string list"
  gpu_available :: bool
  memory_usage :: real

record LoadReply =
  success :: bool
  message :: string

text \<open>An entry of the cache \<open>loaded_models\<close>.\<close>

record model_data =
  processor_of :: handle
  model_of :: handle
  config_of :: ModelConfig

text \<open>
  The inference runtime, outside this repository: the two \<open>from_pretrained\<close> constructors,
  \<open>model.to(device)\<close>, and the tensor pipeline of \<open>process_audio\<close> from the numpy
  conversion to \<open>features.tolist()\<close>, which returns the feature list and its shape.
\<close>

record backend =
  processor_from_pretrained :: "string \<Rightarrow> raised + handle"
  model_from_pretrained :: "string \<Rightarrow> raised + handle"
  to_device :: "handle \<Rightarrow> raised + handle"
  infer :: "handle \<Rightarrow> handle \<Rightarrow> real list \<Rightarrow> int \<Rightarrow> raised + real list \<times> int list"

text \<open>The lines \<open>load_model_task\<close> sends to the logger.\<close>

datatype task_log =
    Loading string string
  | LoadedOk string
  | LoadFailed string raised

text \<open>
  The state of the server process: the module-level cache \<open>loaded_models\<close> (a dict, in
  insertion order), the background tasks the framework has been handed and has not run
  yet, and the log of the load tasks.
\<close>

record server =
  loaded_models :: "(string \<times> model_data) list"
  pending :: "ModelConfig list"
  logged :: "task_log list"

text \<open>\<open>d[k] = v\<close> on a dict: an existing key keeps its place.\<close>

fun dict_set :: "('k \<times> 'v) list \<Rightarrow> 'k \<Rightarrow> 'v \<Rightarrow> ('k \<times> 'v) list" where
  "dict_set [] k v = [(k, v)]"
| "dict_set ((k', v') # kvs) k v =
     (if k' = k then (k, v) # kvs else (k', v') # dict_set kvs k v)"

text \<open>
  \<open>load_model_task\<close>: the cache is written only when both constructors and the move to
  the device have returned; every exception is caught and logged, and leaves the cache
  as it was.
\<close>

definition load_model_task :: "backend \<Rightarrow> server \<Rightarrow> ModelConfig \<Rightarrow> server" where
  "load_model_task b st config =
     (let st0 = st\<lparr>logged := logged st @ [Loading (name config) (path config)]\<rparr>;
          failed = (\<lambda>e. st0\<lparr>logged := logged st0 @ [LoadFailed (name config) e]\<rparr>)
      in case processor_from_pretrained b (path config) of
           Inl e \<Rightarrow> failed e
         | Inr pr \<Rightarrow>
             (case model_from_pretrained b (path config) of
                Inl e \<Rightarrow> failed e
              | Inr m \<Rightarrow>
                  (case to_device b m of
                     Inl e \<Rightarrow> failed e
                   | Inr m' \<Rightarrow>
                       st0\<lparr>loaded_models :=
                             dict_set (loaded_models st0) (name config)
                               \<lparr>processor_of = pr, model_of = m', config_of = config\<rparr>,
                           logged := logged st0 @ [LoadedOk (name config)]\<rparr>)))"

text \<open>
  \<open>POST /models/load\<close>. The guard looks the name up in the cache of loaded models; a
  name that is not there gets a background task. The task runs after the response has
  been sent: until then it is pending. No statement of the body can raise, so the
  handler's \<open>except\<close> is never entered and the reply is always one of the two dicts.
\<close>

definition load_model :: "server \<Rightarrow> ModelConfig \<Rightarrow> LoadReply \<times> server" where
  "load_model st config =
     (if map_of (loaded_models st) (name config) \<noteq> None then
        (\<lparr>success = True, message = ''Model '' @ name config @ '' already loaded''\<rparr>, st)
      else
        (\<lparr>success = True, message = ''Model '' @ name config @ '' loading started''\<rparr>,
         st\<lparr>pending := pending st @ [config]\<rparr>))"

text \<open>The framework runs the oldest pending background task.\<close>

definition run_background :: "backend \<Rightarrow> server \<Rightarrow> server" where
  "run_background b st =
     (case pending st of
        [] \<Rightarrow> st
      | c # cs \<Rightarrow> load_model_task b (st\<lparr>pending := cs\<rparr>) c)"

text \<open>The readings of \<open>torch.cuda\<close> that \<open>health_check\<close> takes (byte counts).\<close>

record cuda_state =
  is_available :: bool
  memory_allocated :: nat
  max_memory_allocated :: nat

text \<open>\<open>a / b\<close> on ints: a float, or ZeroDivisionError.\<close>

definition truediv :: "nat \<Rightarrow> nat \<Rightarrow> raised + real" where
  "truediv a b = (if b = 0 then Inl DivisionByZero else Inr (real a / real b))"

text \<open>
  \<open>GET /health\<close>. The conditional expression tests the peak first and divides only when
  it is positive; an exception inside the \<open>try\<close> becomes a 500.
\<close>

definition health_check :: "cuda_state \<Rightarrow> server \<Rightarrow> raised + HealthStatus" where
  "health_check dev st =
     (let gpu = is_available dev;
          usage =
            (if gpu then
               (if max_memory_allocated dev > 0
                then truediv (memory_allocated dev) (max_memory_allocated dev)
                else Inr 0)
             else Inr 0)
      in case usage of
           Inl e \<Rightarrow> Inl (HTTPException 500 (StrOf e))
         | Inr u \<Rightarrow>
             Inr \<lparr>status = ''ok'', models = map fst (loaded_models st),
                  gpu_available = gpu, memory_usage = u\<rparr>)"

text \<open>
  \<open>model_name not in loaded_models\<close>: hashing a list or a dict raises; every other value
  is looked up, and only a string can be a key of the cache.
\<close>

fun not_in_cache :: "json \<Rightarrow> (string \<times> model_data) list \<Rightarrow> raised + bool" where
  "not_in_cache (JStr s) d = Inr (map_of d s = None)"
| "not_in_cache (JArr xs) d = Inl (Unhashable (JArr xs))"
| "not_in_cache (JObj kvs) d = Inl (Unhashable (JObj kvs))"
| "not_in_cache x d = Inr True"

text \<open>\<open>loaded_models[model_name]\<close>\<close>

fun subscript :: "(string \<times> model_data) list \<Rightarrow> json \<Rightarrow> raised + model_data" where
  "subscript d (JStr s) = (case map_of d s of Some v \<Rightarrow> Inr v | None \<Rightarrow> Inl (KeyError (JStr s)))"
| "subscript d (JArr xs) = Inl (Unhashable (JArr xs))"
| "subscript d (JObj kvs) = Inl (Unhashable (JObj kvs))"
| "subscript d x = Inl (KeyError x)"

text \<open>
  The rest of \<open>process_audio\<close> after the cache check (from \<open>model_data = ...\<close> to the
  \<open>return\<close>). \<open>time\<close> is a local name of the function, since the function body holds an
  \<open>import time\<close>; \<open>time_bound\<close> says whether that statement has run. The dict of the
  \<open>return\<close> is built after the features: reading \<open>time\<close> unbound raises there. \<open>now\<close> is
  what \<open>time.time()\<close> returns.
\<close>

definition run_model ::
  "backend \<Rightarrow> real \<Rightarrow> bool \<Rightarrow> server \<Rightarrow> json \<Rightarrow> AudioData \<Rightarrow> raised + ProcessingResult" where
  "run_model b now time_bound st model_name data =
     (case subscript (loaded_models st) model_name of
        Inl e \<Rightarrow> Inl e
      | Inr md \<Rightarrow>
          (case infer b (processor_of md) (model_of md) (audio data) (sampleRate data) of
             Inl e \<Rightarrow> Inl e
           | Inr (fs, sh) \<Rightarrow>
               if time_bound then
                 Inr \<lparr>features = fs,
                      metadata = \<lparr>model = model_name, shape = sh, timestamp = now\<rparr>\<rparr>
               else Inl (UnboundLocalError ''time'')))"

text \<open>The body of the \<open>try\<close> of \<open>process_audio\<close>.\<close>

definition process_audio_try ::
  "backend \<Rightarrow> real \<Rightarrow> server \<Rightarrow> AudioData \<Rightarrow> (raised + ProcessingResult) \<times> server" where
  "process_audio_try b now st data =
     (let model_name =
            (case map_of (options data) ''model'' of Some v \<Rightarrow> v | None \<Rightarrow> JStr ''wav2vec2-base'')
      in case not_in_cache model_name (loaded_models st) of
           Inl e \<Rightarrow> (Inl e, st)
         | Inr absent \<Rightarrow>
             if absent then
               (if model_name = JStr ''wav2vec2-base'' then
                  (let st1 = load_model_task b st
                               \<lparr>name = ''wav2vec2-base'', path = ''facebook/wav2vec2-base-960h'',
                                parameters = []\<rparr>
                   in (run_model b now True st1 model_name data, st1))
                else (Inl (HTTPException 400 (NotLoaded model_name)), st))
             else (run_model b now False st model_name data, st))"

text \<open>
  \<open>POST /process/wav2vec2\<close>, the function \<open>process_audio\<close> of server.py (named after its
  route here, the worker's method having taken the name): \<open>except Exception\<close> catches
  whatever the body raised, \<open>HTTPException\<close> being an \<open>Exception\<close> too, and raises a 500
  with \<open>str(e)\<close>.
\<close>

definition process_wav2vec2 ::
  "backend \<Rightarrow> real \<Rightarrow> server \<Rightarrow> AudioData \<Rightarrow> (raised + ProcessingResult) \<times> server" where
  "process_wav2vec2 b now st data =
     (case process_audio_try b now st data of
        (Inl e, st') \<Rightarrow> (Inl (HTTPException 500 (StrOf e)), st')
      | (Inr r, st') \<Rightarrow> (Inr r, st'))"

text \<open>
  What happens to the server process, one event at a time: a request to either endpoint
  is handled, or the framework runs a background task. \<open>serve\<close> is the state after a
  sequence of events.
\<close>

datatype event = LoadRequest ModelConfig | BackgroundRun | ProcessRequest AudioData

fun apply_event :: "backend \<Rightarrow> real \<Rightarrow> server \<Rightarrow> event \<Rightarrow> server" where
  "apply_event b now st (LoadRequest c) = snd (load_model st c)"
| "apply_event b now st BackgroundRun = run_background b st"
| "apply_event b now st (ProcessRequest d) = snd (process_wav2vec2 b now st d)"

definition serve :: "backend \<Rightarrow> real \<Rightarrow> server \<Rightarrow> event list \<Rightarrow> server" where
  "serve b now st es = foldl (apply_event b now) st es"

text \<open>The status code the client sees: 200 for a result.\<close>

fun status_code :: "raised + 'a \<Rightarrow> nat option" where
  "status_code (Inr r) = Some 200"
| "status_code (Inl (HTTPException c d)) = Some c"
| "status_code (Inl e) = None"

text \<open>A backend for examples: every load and every inference succeeds.\<close>

definition test_backend :: backend where
  "test_backend =
     \<lparr>processor_from_pretrained = (\<lambda>p. Inr 1),
      model_from_pretrained = (\<lambda>p. Inr 2),
      to_device = (\<lambda>m. Inr m),
      infer = (\<lambda>pr m a sr. Inr ([1 / 4, 3 / 4], [2]))\<rparr>"

definition empty_server :: server where
  "empty_server = \<lparr>loaded_models = [], pending = [], logged = []\<rparr>"

definition demo_config :: ModelConfig where
  "demo_config = \<lparr>name = ''m'', path = ''p'', parameters = []\<rparr>"

text \<open>The server after the default model has been loaded with \<open>test_backend\<close>.\<close>

definition loaded_server :: server where
  "loaded_server =
     load_model_task test_backend empty_server
       \<lparr>name = ''wav2vec2-base'', path = ''facebook/wav2vec2-base-960h'', parameters = []\<rparr>"

definition audio_request :: "(string \<times> json) list \<Rightarrow> AudioData" where
  "audio_request opts = \<lparr>audio = [0, 1 / 2], sampleRate = 16000, options = opts\<rparr>"


section \<open>The memory manager (utils/memory.py)\<close>

record MemoryStats =
  gpu_allocated :: real
  gpu_cached :: real
  gpu_max_allocated :: real
  gpu_total :: real
  ram_used :: real
  ram_available :: real
  ram_total :: real

text \<open>
  A Python float is a finite double (given by the real number it stands for), an
  infinity or NaN. The statistics above are finite: each is a byte count divided by
  \<open>1024**3\<close>, or \<open>0.0\<close>. The arguments of \<open>get_optimal_batch_size\<close> are whatever floats
  the caller passes.
\<close>

datatype pyfloat = Fin real | PosInf | NegInf | NaN

text \<open>\<open>a < b\<close> on floats: every comparison with NaN is false.\<close>

fun float_less :: "pyfloat \<Rightarrow> pyfloat \<Rightarrow> bool" where
  "float_less (Fin x) (Fin y) = (x < y)"
| "float_less (Fin x) PosInf = True"
| "float_less NegInf (Fin y) = True"
| "float_less NegInf PosInf = True"
| "float_less a b = False"

text \<open>The built-in \<open>min(a, b)\<close>: the first argument, unless the second is smaller.\<close>

definition py_min :: "pyfloat \<Rightarrow> pyfloat \<Rightarrow> pyfloat" where
  "py_min a b = (if float_less b a then b else a)"

text \<open>
  The double arithmetic of the interpreter: \<open>-\<close>, \<open>*\<close> and \<open>/\<close> round their result to a
  double, overflow to an infinity and give NaN where IEEE 754 does; \<open>literal\<close> is the
  double a decimal literal of the source denotes. The repository does not define them:
  they are parameters, and what is proved below holds for every arithmetic.
\<close>

record float_ops =
  fsub :: "pyfloat \<Rightarrow> pyfloat \<Rightarrow> pyfloat"
  fmul :: "pyfloat \<Rightarrow> pyfloat \<Rightarrow> pyfloat"
  fdiv :: "pyfloat \<Rightarrow> pyfloat \<Rightarrow> pyfloat"
  literal :: "real \<Rightarrow> pyfloat"

text \<open>
  \<open>a / b\<close> on floats: the interpreter tests the divisor first and raises
  ZeroDivisionError on \<open>0.0\<close> (and \<open>-0.0\<close>); otherwise the quotient of the arithmetic.
\<close>

definition float_div :: "float_ops \<Rightarrow> pyfloat \<Rightarrow> pyfloat \<Rightarrow> py_exception + pyfloat" where
  "float_div ops a b =
     (if b = Fin 0 then Inl (ZeroDivisionError ''float division by zero'') else Inr (fdiv ops a b))"

text \<open>
  \<open>int(x)\<close> on a float: the truncation towards zero of a finite value, OverflowError on
  an infinity, ValueError on NaN.
\<close>

fun py_int :: "pyfloat \<Rightarrow> py_exception + int" where
  "py_int (Fin x) = Inr (if 0 \<le> x then \<lfloor>x\<rfloor> else \<lceil>x\<rceil>)"
| "py_int PosInf = Inl (OverflowError ''cannot convert float infinity to integer'')"
| "py_int NegInf = Inl (OverflowError ''cannot convert float infinity to integer'')"
| "py_int NaN = Inl (ValueError ''cannot convert float NaN to integer'')"

text \<open>
  The \<open>available_memory\<close> of \<open>get_optimal_batch_size\<close>: what is free on the device,
  capped by the target.
\<close>

definition available_memory :: "float_ops \<Rightarrow> MemoryStats \<Rightarrow> pyfloat \<Rightarrow> pyfloat" where
  "available_memory ops stats target =
     py_min (fsub ops (Fin (gpu_total stats)) (Fin (gpu_allocated stats))) target"

text \<open>
  \<open>get_optimal_batch_size(self, sample_batch_memory, target_memory=None)\<close>; \<open>stats\<close> is
  what \<open>self.get_memory_stats()\<close> returns and \<open>target_gpu_memory\<close> the attribute of
  \<open>self\<close>. The product is taken first, then the division, then \<open>int\<close>, then \<open>max\<close>.
\<close>

definition get_optimal_batch_size ::
  "float_ops \<Rightarrow> MemoryStats \<Rightarrow> pyfloat \<Rightarrow> pyfloat \<Rightarrow> pyfloat option \<Rightarrow> py_exception + int" where
  "get_optimal_batch_size ops stats target_gpu_memory sample_batch_memory target_memory =
     (let target = (case target_memory of None \<Rightarrow> target_gpu_memory | Some t \<Rightarrow> t);
          scaled = fmul ops (available_memory ops stats target) (literal ops 0.8)
      in case float_div ops scaled sample_batch_memory of
           Inl e \<Rightarrow> Inl e
         | Inr q \<Rightarrow>
             (case py_int q of
                Inl e \<Rightarrow> Inl e
              | Inr optimal_batch_size \<Rightarrow> Inr (max 1 optimal_batch_size)))"

text \<open>
  An arithmetic to run examples in: exact on finite operands, NaN elsewhere. It returns
  what double arithmetic returns wherever the exact result is a double.
\<close>

definition on_finite :: "(real \<Rightarrow> real \<Rightarrow> real) \<Rightarrow> pyfloat \<Rightarrow> pyfloat \<Rightarrow> pyfloat" where
  "on_finite f a b = (case (a, b) of (Fin x, Fin y) \<Rightarrow> Fin (f x y) | _ \<Rightarrow> NaN)"

definition exact_ops :: float_ops where
  "exact_ops =
     \<lparr>fsub = on_finite (\<lambda>x y. x - y), fmul = on_finite (\<lambda>x y. x * y),
      fdiv = on_finite (\<lambda>x y. x / y), literal = Fin\<rparr>"

text \<open>The statistics \<open>get_memory_stats\<close> returns on a machine without a GPU and 16 GB of RAM.\<close>

definition no_gpu :: MemoryStats where
  "no_gpu = \<lparr>gpu_allocated = 0, gpu_cached = 0, gpu_max_allocated = 0, gpu_total = 0,
             ram_used = 4, ram_available = 12, ram_total = 16\<rparr>"

text \<open>A 6 GB card with 1 GB allocated.\<close>

definition small_gpu :: MemoryStats where
  "small_gpu = \<lparr>gpu_allocated = 1, gpu_cached = 1, gpu_max_allocated = 2, gpu_total = 6,
                ram_used = 4, ram_available = 12, ram_total = 16\<rparr>"

datatype torch_dtype = float16 | float32

text \<open>\<open>Rendered x u\<close> is the string \<open>f"{x:.1f}"\<close> followed by \<open>u\<close>: \<open>x\<close> printed with one decimal.\<close>

datatype rendered = Rendered real string

datatype conf_value =
    Dtype torch_dtype
  | Text string
  | Flag bool
  | MaxMemory "(nat \<times> rendered) list"

text \<open>\<open>optimize_model_config(self)\<close>: the dict it returns, by key.\<close>

definition optimize_model_config :: "MemoryStats \<Rightarrow> real \<Rightarrow> string \<rightharpoonup> conf_value" where
  "optimize_model_config stats target_gpu_memory =
     (let config = [''torch_dtype'' \<mapsto> Dtype float16, ''device_map'' \<mapsto> Text ''auto''];
          config1 =
            (if gpu_total stats < 8 then
               config ++ [''load_in_8bit'' \<mapsto> Flag True, ''use_cache'' \<mapsto> Flag False,
                          ''gradient_checkpointing'' \<mapsto> Flag True]
             else config);
          max_memory = min (gpu_total stats - 0.5) target_gpu_memory
      in config1(''max_memory'' \<mapsto> MaxMemory [(0, Rendered max_memory ''GB'')]))"



section \<open>Properties of the stdio worker\<close>

lemma stdout_of_set: "j \<in> set (stdout_of out) \<longleftrightarrow> Stdout j \<in> set out"
  by (induction out rule: stdout_of.induct) auto

lemma stdout_of_append: "stdout_of (xs @ ys) = stdout_of xs @ stdout_of ys"
  by (induction xs rule: stdout_of.induct) auto

lemma stdout_of_stderr: "stdout_of (map Stderr logs) = []"
  by (induction logs) auto

lemma main_stdout:
  "stdout_of (fst (main env ls)) = stdout_of (fst (read_loop env (fst (start env)) ls))"
proof -
  obtain w logs where s: "start env = (w, logs)" by (cases "start env")
  obtain out x where r: "read_loop env w ls = (out, x)" by (cases "read_loop env w ls")
  have "stdout_of (case x of Returned \<Rightarrow> [Stderr ServiceStopped] | Crashed e \<Rightarrow> []) = []"
    by (cases x) simp_all
  with s r show ?thesis
    by (simp add: main_def stdout_of_append stdout_of_stderr)
qed

lemma main_exit: "snd (main env ls) = snd (read_loop env (fst (start env)) ls)"
  by (simp add: main_def split: prod.splits)

subsection \<open>Shutdown\<close>

lemma shutdown_breaks:
  assumes "map_of kvs ''operation'' = Some (JStr ''shutdown'')"
  shows "handle_line env w (Parsed (JObj kvs)) = Break [Stderr ShuttingDown]"
  using assms by (simp add: handle_line_def dispatch_def)

text \<open>
  Claim C2 (shutdown acknowledgement). The claim asks that a request whose operation is
  \<open>shutdown\<close> be answered on stdout with \<open>{id, result: {status: "shutdown"}, error: null}\<close>
  before the loop ends. The source assigns that result and then executes \<open>break\<close>, which
  skips the statements that write the response: for every request object whose
  operation is \<open>shutdown\<close>, whatever follows it on the input, \<open>main\<close> writes nothing at
  all to stdout and returns. The second half of the claim holds (no later line is
  answered); the acknowledgement itself is never written.
\<close>

theorem shutdown_writes_no_acknowledgement:
  assumes "map_of kvs ''operation'' = Some (JStr ''shutdown'')"
  shows "stdout_of (fst (main env (Parsed (JObj kvs) # ls))) = [] \<and>
         snd (main env (Parsed (JObj kvs) # ls)) = Returned"
  using shutdown_breaks[OF assms] by (simp add: main_stdout main_exit)

theorem shutdown_writes_no_acknowledgement_witness:
  "map_of [(''id'', JInt 1), (''operation'', JStr ''shutdown'')] ''operation'' = Some (JStr ''shutdown'') \<and>
   stdout_of (fst (main test_env [request_line 1 ''shutdown'', request_line 2 ''ping''])) = [] \<and>
   snd (main test_env [request_line 1 ''shutdown'', request_line 2 ''ping'']) = Returned"
proof -
  have h: "map_of [(''id'', JInt 1), (''operation'', JStr ''shutdown'')] ''operation'' = Some (JStr ''shutdown'')"
    by simp
  from shutdown_writes_no_acknowledgement[OF h, of test_env "[request_line 2 ''ping'']"] h
  show ?thesis by (simp add: request_line_def)
qed

lemma shutdown_run:
  "main test_env [request_line 1 ''shutdown'', request_line 2 ''ping''] =
     ([Stderr (Initializing (JStr ''facebook/gama-7b'') (JStr ''cpu'')), Stderr ServiceStarted,
       Stderr ShuttingDown, Stderr ServiceStopped],
      Returned)"
  by (simp add: main_def start_def test_env_def request_line_def handle_line_def dispatch_def
        MockGAMAProcessor_def Let_def getenv_def)

subsection \<open>Robustness of the loop\<close>

lemma malformed_line_continues:
  "handle_line env w (Malformed raw) = Continue w [Stderr (InvalidJSON raw)]"
  by (simp add: handle_line_def)

lemma dispatch_exception_is_reported:
  assumes "py_get request ''id'' JNull = Inr rid"
    and "py_get request ''operation'' JNull = Inr operation"
    and "py_get request ''data'' (JObj []) = Inr d"
    and "dispatch env w operation d = Raised e w' logs"
  shows "handle_line env w (Parsed request) =
           Continue w' (map Stderr (logs @ [ErrorProcessing e]) @
                        [Stdout (response rid JNull (JStr (str_exc e)))])"
  using assms by (simp add: handle_line_def)

lemma malformed_then_ping:
  "stdout_of (fst (main test_env [Malformed ''{oops'', request_line 2 ''ping''])) =
     [response (JInt 2) (ping (proc (fst (start test_env)))) JNull]"
  by (simp add: main_stdout start_def test_env_def request_line_def handle_line_def dispatch_def
        MockGAMAProcessor_def Let_def getenv_def)

text \<open>Only the shutdown operation leaves the loop.\<close>

lemma dispatch_broke:
  assumes "dispatch env w operation d = Broke logs"
  shows "operation = JStr ''shutdown''"
proof (rule ccontr)
  assume n: "operation \<noteq> JStr ''shutdown''"
  have rp: "run_processor w r \<noteq> Broke logs" for r
    by (auto simp: run_processor_def split: prod.splits sum.splits)
  from assms n rp show False
    by (auto simp: dispatch_def Let_def split: if_splits sum.splits prod.splits)
qed

text \<open>
  A request object with any other operation, known or not, and with any data, leaves
  the loop running: whatever the dispatch raises is caught.
\<close>

lemma object_line_continues:
  assumes "map_of kvs ''operation'' \<noteq> Some (JStr ''shutdown'')"
  shows "\<exists>w' out. handle_line env w (Parsed (JObj kvs)) = Continue w' out"
proof -
  let ?op = "case map_of kvs ''operation'' of Some v \<Rightarrow> v | None \<Rightarrow> JNull"
  let ?d = "case map_of kvs ''data'' of Some v \<Rightarrow> v | None \<Rightarrow> JObj []"
  from assms have "?op \<noteq> JStr ''shutdown''" by (auto split: option.splits)
  with dispatch_broke have "\<And>logs. dispatch env w ?op ?d \<noteq> Broke logs" by blast
  then show ?thesis
    by (cases "dispatch env w ?op ?d") (auto simp: handle_line_def)
qed

lemma non_object_propagates:
  assumes "\<And>kvs. v \<noteq> JObj kvs"
  shows "handle_line env w (Parsed v) =
           Propagate (AttributeError (quoted (type_name v) @ '' object has no attribute '' @ quoted ''get'')) []"
  using assms by (cases v) (auto simp: handle_line_def)

text \<open>
  Claim C3 (worker robustness). The claim asks that no input line end the worker other
  than by a shutdown: a line that is not JSON is reported on stderr and skipped
  (\<open>malformed_line_continues\<close>), and an exception raised while dispatching becomes the
  error field of the response (\<open>dispatch_exception_is_reported\<close>), so that every
  request object goes on to the next line (\<open>object_line_continues\<close>). These hold. A line
  that is valid JSON but not an object (a number, a string, a list, \<open>null\<close>) is the case
  the source misses: \<open>request.get("id")\<close> stands outside the inner \<open>try\<close>, and the outer
  handler catches JSONDecodeError only, so the AttributeError leaves \<open>main\<close>. The worker
  ends without a response and without reading the lines that follow.
\<close>

theorem non_object_line_ends_worker:
  assumes "\<And>kvs. v \<noteq> JObj kvs"
  shows "snd (main env (Parsed v # ls)) =
           Crashed (AttributeError (quoted (type_name v) @ '' object has no attribute '' @ quoted ''get'')) \<and>
         stdout_of (fst (main env (Parsed v # ls))) = []"
  using non_object_propagates[OF assms] by (simp add: main_stdout main_exit)

theorem non_object_line_ends_worker_witness:
  "snd (main test_env [Parsed (JArr []), request_line 2 ''ping'']) =
     Crashed (AttributeError (quoted ''list'' @ '' object has no attribute '' @ quoted ''get'')) \<and>
   stdout_of (fst (main test_env [Parsed (JArr []), request_line 2 ''ping''])) = []"
proof -
  have h: "\<And>kvs. JArr [] \<noteq> JObj kvs" by simp
  from non_object_line_ends_worker[OF h, of test_env "[request_line 2 ''ping'']"]
  show ?thesis by simp
qed


subsection \<open>The response envelope\<close>

lemma process_audio_not_null:
  "process_audio r k p a opts = (Inr v, p', k', logs) \<Longrightarrow> v \<noteq> JNull"
  by (auto simp: process_audio_def Let_def split: prod.splits sum.splits)

lemma extract_features_not_null:
  "extract_features r k p a opts = (Inr v, p', k', logs) \<Longrightarrow> v \<noteq> JNull"
  by (auto simp: extract_features_def Let_def split: prod.splits sum.splits if_splits)

lemma run_processor_answered:
  "run_processor w r = Answered v e w' logs \<Longrightarrow> e = JNull \<and> (\<exists>p k. r = (Inr v, p, k, logs))"
  by (auto simp: run_processor_def split: prod.splits sum.splits)

text \<open>
  Whenever the dispatch falls through to the response: one of the four operations that
  compute something has set \<open>result\<close> and left \<open>error\<close> at \<open>None\<close>, or the operation is
  none of the five and \<open>error\<close> is the unknown-operation message, \<open>result\<close> still \<open>None\<close>.
  One case per branch of the \<open>if/elif\<close> chain.
\<close>

lemma dispatch_answered:
  assumes "dispatch env w operation d = Answered r e w' logs"
  shows "if operation \<in> {JStr ''ping'', JStr ''process_audio'', JStr ''extract_features'',
                          JStr ''load_model''}
         then r \<noteq> JNull \<and> e = JNull
         else r = JNull \<and> e = JStr (''Unknown operation: '' @ str_json env operation)"
proof -
  consider (ping) "operation = JStr ''ping''"
    | (pa) "operation = JStr ''process_audio''"
    | (ef) "operation = JStr ''extract_features''"
    | (lm) "operation = JStr ''load_model''"
    | (sd) "operation = JStr ''shutdown''"
    | (other) "operation \<noteq> JStr ''ping''" "operation \<noteq> JStr ''process_audio''"
        "operation \<noteq> JStr ''extract_features''" "operation \<noteq> JStr ''load_model''"
        "operation \<noteq> JStr ''shutdown''"
    by blast
  then show ?thesis
  proof cases
    case ping
    with assms show ?thesis by (auto simp: dispatch_def ping_def)
  next
    case pa
    with assms show ?thesis
      by (auto simp: dispatch_def split: sum.splits
               dest!: run_processor_answered dest: process_audio_not_null)
  next
    case ef
    with assms show ?thesis
      by (auto simp: dispatch_def split: sum.splits
               dest!: run_processor_answered dest: extract_features_not_null)
  next
    case lm
    with assms show ?thesis
      by (auto simp: dispatch_def Let_def split: sum.splits prod.splits)
  next
    case sd
    with assms show ?thesis by (simp add: dispatch_def)
  next
    case other
    with assms show ?thesis by (auto simp: dispatch_def)
  qed
qed

lemma unknown_operation_is_an_error:
  assumes "operation \<noteq> JStr ''ping''" "operation \<noteq> JStr ''process_audio''"
    "operation \<noteq> JStr ''extract_features''" "operation \<noteq> JStr ''load_model''"
    "operation \<noteq> JStr ''shutdown''"
  shows "dispatch env w operation d =
           Answered JNull (JStr (''Unknown operation: '' @ str_json env operation)) w []"
  using assms by (simp add: dispatch_def)

text \<open>
  What one iteration writes to stdout: nothing, or the one object built from the id of
  the request of that line and from the outcome of its dispatch.
\<close>

lemma handle_line_envelope:
  assumes "Stdout j \<in> set (written_by (handle_line env w l))"
  shows "\<exists>kvs result error.
           l = Parsed (JObj kvs) \<and>
           stdout_of (written_by (handle_line env w l)) = [j] \<and>
           j = JObj [(''id'', case map_of kvs ''id'' of Some v \<Rightarrow> v | None \<Rightarrow> JNull),
                     (''result'', result), (''error'', error)] \<and>
           ((\<exists>w' logs.
               dispatch env w
                 (case map_of kvs ''operation'' of Some v \<Rightarrow> v | None \<Rightarrow> JNull)
                 (case map_of kvs ''data'' of Some v \<Rightarrow> v | None \<Rightarrow> JObj []) =
               Answered result error w' logs) \<or>
            (\<exists>ex w' logs.
               dispatch env w
                 (case map_of kvs ''operation'' of Some v \<Rightarrow> v | None \<Rightarrow> JNull)
                 (case map_of kvs ''data'' of Some v \<Rightarrow> v | None \<Rightarrow> JObj []) =
               Raised ex w' logs \<and> result = JNull \<and> error = JStr (str_exc ex)))"
proof (cases l)
  case (Malformed raw)
  with assms show ?thesis by (simp add: handle_line_def)
next
  case (Parsed request)
  show ?thesis
  proof (cases "\<exists>kvs. request = JObj kvs")
    case False
    then have "\<And>kvs. request \<noteq> JObj kvs" by blast
    from non_object_propagates[OF this] assms Parsed show ?thesis by simp
  next
    case True
    then obtain kvs where kvs: "request = JObj kvs" by blast
    let ?op = "case map_of kvs ''operation'' of Some v \<Rightarrow> v | None \<Rightarrow> JNull"
    let ?d = "case map_of kvs ''data'' of Some v \<Rightarrow> v | None \<Rightarrow> JObj []"
    show ?thesis
    proof (cases "dispatch env w ?op ?d")
      case (Answered r e w' logs)
      with assms Parsed kvs
      have "j = JObj [(''id'', case map_of kvs ''id'' of Some v \<Rightarrow> v | None \<Rightarrow> JNull),
                      (''result'', r), (''error'', e)]"
        and "stdout_of (written_by (handle_line env w l)) = [j]"
        by (auto simp: handle_line_def response_def stdout_of_append stdout_of_stderr)
      with Parsed kvs Answered show ?thesis by blast
    next
      case (Broke logs)
      with assms Parsed kvs show ?thesis by (auto simp: handle_line_def)
    next
      case (Raised ex w' logs)
      with assms Parsed kvs
      have "j = JObj [(''id'', case map_of kvs ''id'' of Some v \<Rightarrow> v | None \<Rightarrow> JNull),
                      (''result'', JNull), (''error'', JStr (str_exc ex))]"
        and "stdout_of (written_by (handle_line env w l)) = [j]"
        by (auto simp: handle_line_def response_def stdout_of_append stdout_of_stderr
              simp del: map_append)
      with Parsed kvs Raised show ?thesis by blast
    qed
  qed
qed

text \<open>
  Every line the loop writes to stdout was written by the iteration of one input line,
  in the state the loop had reached when it came to that line.
\<close>

lemma read_loop_envelope:
  "j \<in> set (stdout_of (fst (read_loop env w ls))) \<Longrightarrow>
     \<exists>i w'. i < length ls \<and> state_after env w (take i ls) = Some w' \<and>
             Stdout j \<in> set (written_by (handle_line env w' (ls ! i)))"
proof (induction ls arbitrary: w)
  case Nil
  then show ?case by simp
next
  case (Cons l ls)
  have here: "Stdout j \<in> set (written_by (handle_line env w l)) \<Longrightarrow> ?case"
  proof -
    assume "Stdout j \<in> set (written_by (handle_line env w l))"
    then have "0 < length (l # ls) \<and> state_after env w (take 0 (l # ls)) = Some w \<and>
               Stdout j \<in> set (written_by (handle_line env w ((l # ls) ! 0)))"
      by simp
    then show ?case by blast
  qed
  show ?case
  proof (cases "handle_line env w l")
    case (Continue w1 out)
    with Cons.prems
    have "j \<in> set (stdout_of out) \<or> j \<in> set (stdout_of (fst (read_loop env w1 ls)))"
      by (auto simp: stdout_of_append split: prod.splits)
    then show ?thesis
    proof
      assume "j \<in> set (stdout_of out)"
      with Continue have "Stdout j \<in> set (written_by (handle_line env w l))"
        by (simp add: stdout_of_set)
      then show ?thesis by (rule here)
    next
      assume "j \<in> set (stdout_of (fst (read_loop env w1 ls)))"
      from Cons.IH[OF this] obtain i w' where
        i: "i < length ls" "state_after env w1 (take i ls) = Some w'"
           "Stdout j \<in> set (written_by (handle_line env w' (ls ! i)))"
        by blast
      with Continue
      have "Suc i < length (l # ls) \<and> state_after env w (take (Suc i) (l # ls)) = Some w' \<and>
            Stdout j \<in> set (written_by (handle_line env w' ((l # ls) ! Suc i)))"
        by simp
      then show ?thesis by blast
    qed
  next
    case (Break out)
    with Cons.prems have "Stdout j \<in> set (written_by (handle_line env w l))"
      by (simp add: stdout_of_set)
    then show ?thesis by (rule here)
  next
    case (Propagate e out)
    with Cons.prems have "Stdout j \<in> set (written_by (handle_line env w l))"
      by (simp add: stdout_of_set)
    then show ?thesis by (rule here)
  qed
qed

text \<open>
  Claim C4 (RPC envelope invariant). Every line \<open>main\<close> writes to stdout, on any input
  and in any environment, is the one line written by the iteration of some request
  object of the input (line \<open>i\<close>, handled in the state \<open>w\<close> the loop had reached there).
  It is the dict with exactly the keys \<open>id\<close>, \<open>result\<close>, \<open>error\<close>, in this order; its id
  is what \<open>request.get("id")\<close> gives for that request; and \<open>result\<close> and \<open>error\<close> are the
  outcome of dispatching that request's operation on its data in that state: when the
  dispatch returns for \<open>ping\<close>, \<open>process_audio\<close>, \<open>extract_features\<close> or \<open>load_model\<close>,
  \<open>result\<close> is set and \<open>error\<close> is \<open>None\<close>; for any other operation \<open>result\<close> is \<open>None\<close>
  and \<open>error\<close> is the unknown-operation message; when the dispatch raises, \<open>result\<close> is
  \<open>None\<close> and \<open>error\<close> is \<open>str(e)\<close>. In each case exactly one of the two is not \<open>None\<close>.
\<close>

theorem envelope_invariant:
  assumes "j \<in> set (stdout_of (fst (main env ls)))"
  shows "\<exists>i kvs w operation d result error.
           i < length ls \<and> ls ! i = Parsed (JObj kvs) \<and>
           state_after env (fst (start env)) (take i ls) = Some w \<and>
           stdout_of (written_by (handle_line env w (ls ! i))) = [j] \<and>
           operation = (case map_of kvs ''operation'' of Some v \<Rightarrow> v | None \<Rightarrow> JNull) \<and>
           d = (case map_of kvs ''data'' of Some v \<Rightarrow> v | None \<Rightarrow> JObj []) \<and>
           j = JObj [(''id'', case map_of kvs ''id'' of Some v \<Rightarrow> v | None \<Rightarrow> JNull),
                     (''result'', result), (''error'', error)] \<and>
           (result = JNull) \<noteq> (error = JNull) \<and>
           ((\<exists>w' logs. dispatch env w operation d = Answered result error w' logs \<and>
               (if operation \<in> {JStr ''ping'', JStr ''process_audio'',
                                  JStr ''extract_features'', JStr ''load_model''}
                then result \<noteq> JNull \<and> error = JNull
                else result = JNull \<and>
                     error = JStr (''Unknown operation: '' @ str_json env operation))) \<or>
            (\<exists>ex w' logs. dispatch env w operation d = Raised ex w' logs \<and>
               result = JNull \<and> error = JStr (str_exc ex)))"
proof -
  from assms have "j \<in> set (stdout_of (fst (read_loop env (fst (start env)) ls)))"
    by (simp add: main_stdout)
  from read_loop_envelope[OF this] obtain i w where
    i: "i < length ls" "state_after env (fst (start env)) (take i ls) = Some w"
    and wr: "Stdout j \<in> set (written_by (handle_line env w (ls ! i)))"
    by blast
  let ?op = "\<lambda>kvs. case map_of kvs ''operation'' of Some v \<Rightarrow> v | None \<Rightarrow> JNull"
  let ?d = "\<lambda>kvs. case map_of kvs ''data'' of Some v \<Rightarrow> v | None \<Rightarrow> JObj []"
  from handle_line_envelope[OF wr] obtain kvs result error where
    l: "ls ! i = Parsed (JObj kvs)"
    and one: "stdout_of (written_by (handle_line env w (ls ! i))) = [j]"
    and j: "j = JObj [(''id'', case map_of kvs ''id'' of Some v \<Rightarrow> v | None \<Rightarrow> JNull),
                      (''result'', result), (''error'', error)]"
    and out: "(\<exists>w' logs. dispatch env w (?op kvs) (?d kvs) = Answered result error w' logs) \<or>
              (\<exists>ex w' logs. dispatch env w (?op kvs) (?d kvs) = Raised ex w' logs \<and>
                 result = JNull \<and> error = JStr (str_exc ex))"
    by blast
  from out have cases:
    "((\<exists>w' logs. dispatch env w (?op kvs) (?d kvs) = Answered result error w' logs \<and>
         (if ?op kvs \<in> {JStr ''ping'', JStr ''process_audio'',
                          JStr ''extract_features'', JStr ''load_model''}
          then result \<noteq> JNull \<and> error = JNull
          else result = JNull \<and>
               error = JStr (''Unknown operation: '' @ str_json env (?op kvs)))) \<or>
      (\<exists>ex w' logs. dispatch env w (?op kvs) (?d kvs) = Raised ex w' logs \<and>
         result = JNull \<and> error = JStr (str_exc ex)))"
    using dispatch_answered by blast
  then have "(result = JNull) \<noteq> (error = JNull)"
    by (auto split: if_splits)
  with i l one j cases show ?thesis by blast
qed

theorem envelope_invariant_witness:
  "\<exists>i kvs w operation d result error.
     i < length [Malformed ''{'', request_line 7 ''ping'', request_line 8 ''frobnicate''] \<and>
     [Malformed ''{'', request_line 7 ''ping'', request_line 8 ''frobnicate''] ! i =
       Parsed (JObj kvs) \<and>
     state_after test_env (fst (start test_env))
       (take i [Malformed ''{'', request_line 7 ''ping'', request_line 8 ''frobnicate'']) = Some w \<and>
     stdout_of (written_by (handle_line test_env w
       ([Malformed ''{'', request_line 7 ''ping'', request_line 8 ''frobnicate''] ! i))) =
       [JObj [(''id'', JInt 8), (''result'', JNull),
              (''error'', JStr ''Unknown operation: frobnicate'')]] \<and>
     operation = (case map_of kvs ''operation'' of Some v \<Rightarrow> v | None \<Rightarrow> JNull) \<and>
     d = (case map_of kvs ''data'' of Some v \<Rightarrow> v | None \<Rightarrow> JObj []) \<and>
     JObj [(''id'', JInt 8), (''result'', JNull),
           (''error'', JStr ''Unknown operation: frobnicate'')] =
       JObj [(''id'', case map_of kvs ''id'' of Some v \<Rightarrow> v | None \<Rightarrow> JNull),
             (''result'', result), (''error'', error)] \<and>
     (result = JNull) \<noteq> (error = JNull) \<and>
     ((\<exists>w' logs. dispatch test_env w operation d = Answered result error w' logs \<and>
         (if operation \<in> {JStr ''ping'', JStr ''process_audio'',
                            JStr ''extract_features'', JStr ''load_model''}
          then result \<noteq> JNull \<and> error = JNull
          else result = JNull \<and>
               error = JStr (''Unknown operation: '' @ str_json test_env operation))) \<or>
      (\<exists>ex w' logs. dispatch test_env w operation d = Raised ex w' logs \<and>
         result = JNull \<and> error = JStr (str_exc ex)))"
proof -
  have "JObj [(''id'', JInt 8), (''result'', JNull),
              (''error'', JStr ''Unknown operation: frobnicate'')]
          \<in> set (stdout_of (fst (main test_env
                [Malformed ''{'', request_line 7 ''ping'', request_line 8 ''frobnicate''])))"
    by (simp add: main_def start_def test_env_def request_line_def handle_line_def dispatch_def
          MockGAMAProcessor_def Let_def getenv_def response_def)
  from envelope_invariant[OF this] show ?thesis .
qed

text \<open>The run behind the example: one malformed line, a ping, an unknown operation.\<close>

lemma envelope_run:
  "stdout_of (fst (main test_env
       [Malformed ''{'', request_line 7 ''ping'', request_line 8 ''frobnicate''])) =
     [JObj [(''id'', JInt 7),
            (''result'', JObj [(''status'', JStr ''ok''), (''device'', JStr ''cpu''),
                               (''memory_available'', JInt 0)]),
            (''error'', JNull)],
      JObj [(''id'', JInt 8), (''result'', JNull),
            (''error'', JStr ''Unknown operation: frobnicate'')]]"
  by (simp add: main_def start_def test_env_def request_line_def handle_line_def dispatch_def
        MockGAMAProcessor_def Let_def getenv_def response_def ping_def)

subsection \<open>The structure of a transcription\<close>

text \<open>
  Claim C10 (structure of the \<open>process_audio\<close> result). On a list of \<open>n\<close> samples the
  call returns a dict, whatever the processor state, the options and the random draws:
  \<open>word_count\<close> is \<open>max(1, n // 8000)\<close>, \<open>segments\<close> has that many entries, \<open>duration\<close>
  is \<open>n / 16000\<close>, and \<open>transcription\<close> is the \<open>text\<close> entries of the segments joined by
  single spaces, in order. Those texts are \<open>Word 1\<close>, \<open>Word 2\<close>, ..., so all four fields
  are functions of \<open>n\<close> alone.
\<close>

theorem process_audio_structure:
  "\<exists>r segs p' k' logs.
     process_audio rn k p (JArr xs) opts = (Inr (JObj r), p', k', logs) \<and>
     map_of r ''word_count'' = Some (JInt (max 1 (int (length xs) div 8000))) \<and>
     map_of r ''segments'' = Some (JArr segs) \<and>
     int (length segs) = max 1 (int (length xs) div 8000) \<and>
     map_of r ''duration'' = Some (JFloat (real (length xs) / 16000)) \<and>
     map_of r ''transcription'' = Some (JStr (join '' '' (map text_of segs))) \<and>
     map text_of segs = map word_text [0..<nat (max 1 (int (length xs) div 8000))]"
proof -
  have t: "text_of (segment rn k sl i) = word_text i" for sl i
    by (simp add: text_of_def segment_def)
  have "0 \<le> max 1 (int (length xs) div 8000)" by simp
  then show ?thesis
    by (simp add: process_audio_def Let_def t comp_def split: prod.splits)
qed


lemma process_audio_run:
  "fst (process_audio (\<lambda>k. 1 / 2) 0 (proc (fst (start test_env))) (JArr [JFloat 0, JFloat 1]) JNull) =
     Inr (JObj
       [(''transcription'', JStr ''Word 1''),
        (''confidence'', JFloat 0.9),
        (''segments'',
           JArr [JObj [(''text'', JStr ''Word 1''), (''start'', JFloat 0),
                       (''end'', JFloat (2 / 16000)), (''confidence'', JFloat 0.9)]]),
        (''duration'', JFloat (2 / 16000)),
        (''word_count'', JInt 1),
        (''processing_time'', JInt 500),
        (''memory_usage'', JObj [(''peak'', JInt 104857600), (''current'', JInt 52428800)])])"
  by (simp add: process_audio_def ensure_initialized_def initialize_def start_def test_env_def
        MockGAMAProcessor_def Let_def segment_def word_text_def str_nat.simps)


section \<open>Properties of the HTTP facade\<close>

subsection \<open>Loading a model twice\<close>

lemma map_of_dict_set: "map_of (dict_set d k v) = (map_of d)(k \<mapsto> v)"
  by (induction d k v rule: dict_set.induct) auto

lemma load_model_when_cached:
  assumes "map_of (loaded_models st) (name c) \<noteq> None"
  shows "load_model st c =
           (\<lparr>success = True, message = ''Model '' @ name c @ '' already loaded''\<rparr>, st)"
  using assms by (simp add: load_model_def)

lemma load_model_when_not_cached:
  assumes "map_of (loaded_models st) (name c) = None"
  shows "load_model st c =
           (\<lparr>success = True, message = ''Model '' @ name c @ '' loading started''\<rparr>,
            st\<lparr>pending := pending st @ [c]\<rparr>)"
  using assms by (simp add: load_model_def)

lemma load_model_task_success:
  assumes "processor_from_pretrained b (path c) = Inr pr"
    and "model_from_pretrained b (path c) = Inr m"
    and "to_device b m = Inr m'"
  shows "map_of (loaded_models (load_model_task b st c)) (name c) =
           Some \<lparr>processor_of = pr, model_of = m', config_of = c\<rparr>"
  using assms by (simp add: load_model_task_def Let_def map_of_dict_set)

text \<open>Nothing in the server removes a name from the cache.\<close>

lemma load_model_task_keeps:
  assumes "map_of (loaded_models st) n \<noteq> None"
  shows "map_of (loaded_models (load_model_task b st c)) n \<noteq> None"
  using assms
  by (auto simp: load_model_task_def Let_def map_of_dict_set split: sum.splits)

lemma load_model_keeps: "loaded_models (snd (load_model st c)) = loaded_models st"
  by (simp add: load_model_def)

lemma run_background_keeps:
  assumes "map_of (loaded_models st) n \<noteq> None"
  shows "map_of (loaded_models (run_background b st)) n \<noteq> None"
proof (cases "pending st")
  case Nil
  with assms show ?thesis by (simp add: run_background_def)
next
  case (Cons c cs)
  from assms have "map_of (loaded_models (st\<lparr>pending := cs\<rparr>)) n \<noteq> None" by simp
  from load_model_task_keeps[OF this] Cons show ?thesis by (simp add: run_background_def)
qed

lemma process_keeps:
  assumes "map_of (loaded_models st) n \<noteq> None"
  shows "map_of (loaded_models (snd (process_wav2vec2 b now st d))) n \<noteq> None"
proof -
  have "snd (process_wav2vec2 b now st d) = snd (process_audio_try b now st d)"
    by (simp add: process_wav2vec2_def split: prod.splits sum.splits)
  moreover have "map_of (loaded_models (snd (process_audio_try b now st d))) n \<noteq> None"
    using assms load_model_task_keeps[OF assms]
    by (auto simp: process_audio_try_def Let_def split: sum.splits)
  ultimately show ?thesis by simp
qed

lemma apply_event_keeps:
  assumes "map_of (loaded_models st) n \<noteq> None"
  shows "map_of (loaded_models (apply_event b now st e)) n \<noteq> None"
  using assms by (cases e) (simp_all add: load_model_keeps run_background_keeps process_keeps)

lemma serve_keeps:
  "map_of (loaded_models st) n \<noteq> None \<Longrightarrow> map_of (loaded_models (serve b now st es)) n \<noteq> None"
proof (induction es arbitrary: st)
  case Nil
  then show ?case by (simp add: serve_def)
next
  case (Cons e es)
  from apply_event_keeps[OF Cons.prems]
  have "map_of (loaded_models (apply_event b now st e)) n \<noteq> None" .
  from Cons.IH[OF this] show ?case by (simp add: serve_def)
qed

text \<open>
  Claim C1 (idempotent load), as the code has it. The guard of \<open>load_model\<close> reads the
  cache of loaded models, and the cache is written only when a load task has finished
  without an exception. So the load is idempotent from that moment on: once the task
  for a configuration has completed successfully, then after any further requests and
  background runs a \<open>POST /models/load\<close> with the same name answers "already loaded"
  and changes nothing, in particular it hands no task to the framework.
\<close>

theorem load_idempotent_after_completion:
  assumes "processor_from_pretrained b (path c) = Inr pr"
    and "model_from_pretrained b (path c) = Inr m"
    and "to_device b m = Inr m'"
  shows "load_model (serve b now (load_model_task b st c) es) c =
           (\<lparr>success = True, message = ''Model '' @ name c @ '' already loaded''\<rparr>,
            serve b now (load_model_task b st c) es)"
proof -
  from load_model_task_success[OF assms]
  have "map_of (loaded_models (load_model_task b st c)) (name c) \<noteq> None" by simp
  then have "map_of (loaded_models (serve b now (load_model_task b st c) es)) (name c) \<noteq> None"
    by (rule serve_keeps)
  then show ?thesis by (rule load_model_when_cached)
qed

theorem load_idempotent_after_completion_witness:
  "load_model (serve test_backend 0 (load_model_task test_backend empty_server demo_config)
                 [LoadRequest demo_config, BackgroundRun]) demo_config =
     (\<lparr>success = True, message = ''Model m already loaded''\<rparr>,
      \<lparr>loaded_models = [(''m'', \<lparr>processor_of = 1, model_of = 2, config_of = demo_config\<rparr>)],
       pending = [], logged = [Loading ''m'' ''p'', LoadedOk ''m'']\<rparr>)"
proof -
  have "processor_from_pretrained test_backend (path demo_config) = Inr 1"
    "model_from_pretrained test_backend (path demo_config) = Inr 2"
    "to_device test_backend 2 = Inr 2"
    by (simp_all add: test_backend_def)
  from load_idempotent_after_completion
         [OF this, of 0 empty_server "[LoadRequest demo_config, BackgroundRun]"]
  show ?thesis
    by (simp add: serve_def load_model_def run_background_def load_model_task_def
          test_backend_def empty_server_def demo_config_def Let_def)
qed

text \<open>
  While the first task is still pending the cache does not hold the name: the second
  request is answered "loading started" like the first and a second task is handed to
  the framework. Both tasks then run, and each loads the model.
\<close>

theorem second_load_before_completion_starts_again:
  "fst (load_model (snd (load_model empty_server demo_config)) demo_config) =
     \<lparr>success = True, message = ''Model m loading started''\<rparr> \<and>
   pending (snd (load_model (snd (load_model empty_server demo_config)) demo_config)) =
     [demo_config, demo_config] \<and>
   logged (run_background test_backend (run_background test_backend
      (snd (load_model (snd (load_model empty_server demo_config)) demo_config)))) =
     [Loading ''m'' ''p'', LoadedOk ''m'', Loading ''m'' ''p'', LoadedOk ''m'']"
  by (simp add: load_model_def empty_server_def demo_config_def run_background_def
        load_model_task_def test_backend_def Let_def)

subsection \<open>The health endpoint\<close>

text \<open>
  Claim C6 (memory utilisation of \<open>GET /health\<close>). For every reading of the device the
  endpoint returns a status (the division never runs on a zero peak, so the 500 of the
  handler is never raised); \<open>memory_usage\<close> is allocated / peak when a device is present
  and the peak is positive, and 0 otherwise; and it lies in [0, 1] whenever the
  allocated bytes do not exceed the peak, which is what the peak of the allocator means.
\<close>

theorem health_memory_usage:
  "\<exists>h. health_check dev st = Inr h \<and>
     memory_usage h =
       (if is_available dev \<and> 0 < max_memory_allocated dev
        then real (memory_allocated dev) / real (max_memory_allocated dev) else 0) \<and>
     (memory_allocated dev \<le> max_memory_allocated dev \<longrightarrow>
        0 \<le> memory_usage h \<and> memory_usage h \<le> 1)"
  by (auto simp: health_check_def truediv_def Let_def)

theorem health_memory_usage_witness:
  "\<exists>h. health_check \<lparr>is_available = True, memory_allocated = 3, max_memory_allocated = 4\<rparr>
          empty_server = Inr h \<and>
     memory_usage h = 3 / 4 \<and> (3::nat) \<le> 4 \<and> 0 \<le> memory_usage h \<and> memory_usage h \<le> 1"
  using health_memory_usage
          [of "\<lparr>is_available = True, memory_allocated = 3, max_memory_allocated = 4\<rparr>" empty_server]
  by auto

lemma health_without_peak:
  "health_check \<lparr>is_available = True, memory_allocated = 0, max_memory_allocated = 0\<rparr> empty_server =
     Inr \<lparr>status = ''ok'', models = [], gpu_available = True, memory_usage = 0\<rparr>"
  by (simp add: health_check_def empty_server_def)

subsection \<open>Processing a request\<close>

text \<open>
  Claim C7 (client error for an unknown model). The claim asks for a 400 when the
  request names a model that is neither loaded nor the default. The source raises that
  \<open>HTTPException(400)\<close> inside the \<open>try\<close> whose \<open>except Exception\<close> catches it and raises
  a 500 in its place: the client sees status 500, as for a failure of the backend.
\<close>

theorem unloaded_model_answers_500:
  assumes "map_of (options data) ''model'' = Some (JStr n)"
    and "map_of (loaded_models st) n = None"
    and "n \<noteq> ''wav2vec2-base''"
  shows "process_wav2vec2 b now st data =
           (Inl (HTTPException 500 (StrOf (HTTPException 400 (NotLoaded (JStr n))))), st) \<and>
         status_code (fst (process_wav2vec2 b now st data)) = Some 500"
  using assms by (simp add: process_wav2vec2_def process_audio_try_def)

theorem unloaded_model_answers_500_witness:
  "process_wav2vec2 test_backend 0 empty_server (audio_request [(''model'', JStr ''other'')]) =
     (Inl (HTTPException 500 (StrOf (HTTPException 400 (NotLoaded (JStr ''other''))))), empty_server) \<and>
   status_code (fst (process_wav2vec2 test_backend 0 empty_server
                       (audio_request [(''model'', JStr ''other'')]))) = Some 500"
proof -
  have "map_of (options (audio_request [(''model'', JStr ''other'')])) ''model'' = Some (JStr ''other'')"
    "map_of (loaded_models empty_server) ''other'' = None" "''other'' \<noteq> ''wav2vec2-base''"
    by (simp_all add: audio_request_def empty_server_def)
  from unloaded_model_answers_500[OF this] show ?thesis .
qed

text \<open>
  Claim C9 (payload of a successful request). The claim asks that a request for a loaded
  model return the features with the model name, the shape and a timestamp. When the
  model is already in the cache the \<open>import time\<close> of the loading branch is not
  executed, \<open>time\<close> is an unbound local where the timestamp is taken, and the request
  fails with a 500 after the inference has succeeded.
\<close>

theorem loaded_model_answers_500:
  assumes "(case map_of (options data) ''model'' of Some v \<Rightarrow> v | None \<Rightarrow> JStr ''wav2vec2-base'') = JStr n"
    and "map_of (loaded_models st) n = Some md"
    and "infer b (processor_of md) (model_of md) (audio data) (sampleRate data) = Inr (fs, sh)"
  shows "process_wav2vec2 b now st data =
           (Inl (HTTPException 500 (StrOf (UnboundLocalError ''time''))), st)"
  using assms by (simp add: process_wav2vec2_def process_audio_try_def run_model_def)

theorem loaded_model_answers_500_witness:
  "process_wav2vec2 test_backend 0 loaded_server (audio_request []) =
     (Inl (HTTPException 500 (StrOf (UnboundLocalError ''time''))), loaded_server)"
proof -
  let ?md = "\<lparr>processor_of = 1, model_of = 2,
              config_of = \<lparr>name = ''wav2vec2-base'', path = ''facebook/wav2vec2-base-960h'',
                           parameters = []\<rparr>\<rparr>"
  have "(case map_of (options (audio_request [])) ''model'' of Some v \<Rightarrow> v
         | None \<Rightarrow> JStr ''wav2vec2-base'') = JStr ''wav2vec2-base''"
    by (simp add: audio_request_def)
  moreover have "map_of (loaded_models loaded_server) ''wav2vec2-base'' = Some ?md"
    by (simp add: loaded_server_def load_model_task_def test_backend_def empty_server_def Let_def)
  moreover have "infer test_backend (processor_of ?md) (model_of ?md) (audio (audio_request []))
                   (sampleRate (audio_request [])) = Inr ([1 / 4, 3 / 4], [2])"
    by (simp add: test_backend_def)
  ultimately show ?thesis by (rule loaded_model_answers_500)
qed

text \<open>The one path that returns the payload: the default model, loaded by this very request.\<close>

lemma fresh_default_load_returns_payload:
  "fst (process_wav2vec2 test_backend now empty_server (audio_request [])) =
     Inr \<lparr>features = [1 / 4, 3 / 4],
          metadata = \<lparr>model = JStr ''wav2vec2-base'', shape = [2], timestamp = now\<rparr>\<rparr>"
  by (simp add: process_wav2vec2_def process_audio_try_def run_model_def load_model_task_def
        test_backend_def empty_server_def audio_request_def Let_def)


section \<open>Properties of the memory manager\<close>

lemma max_truncation: "max 1 (if 0 \<le> q then \<lfloor>q\<rfloor> else \<lceil>q\<rceil>) = max (1::int) \<lfloor>q::real\<rfloor>"
proof (cases "0 \<le> q")
  case True
  then show ?thesis by simp
next
  case False
  then have "\<lceil>q\<rceil> \<le> 0" "\<lfloor>q\<rfloor> \<le> 0" by simp_all
  with False show ?thesis by simp
qed

lemma batch_size_overflow:
  assumes "sample \<noteq> Fin 0"
    and "fdiv ops (fmul ops (available_memory ops stats tgm) (literal ops 0.8)) sample = PosInf"
  shows "get_optimal_batch_size ops stats tgm sample None =
           Inl (OverflowError ''cannot convert float infinity to integer'')"
  using assms by (simp add: get_optimal_batch_size_def float_div_def)

text \<open>
  Claim C5 (suggested batch size), as the code has it. Let \<open>q\<close> be the float the source
  computes for \<open>(available_memory * 0.8) / sample_batch_memory\<close>, in whatever double
  arithmetic runs it. The call raises ZeroDivisionError when the per-sample estimate
  is zero, and \<open>int\<close> raises when \<open>q\<close> is an infinity or NaN. In every other case it
  returns \<open>max(1, floor(q))\<close> (the truncation of \<open>int\<close> and the floor differ only below
  1, where the maximum takes over). So whenever a batch size is returned it is at
  least 1, for zero and negative available memory as for any other.
\<close>

theorem batch_size_when_returned:
  "get_optimal_batch_size ops stats tgm sample tm =
     (if sample = Fin 0 then Inl (ZeroDivisionError ''float division by zero'')
      else case fdiv ops (fmul ops
                  (available_memory ops stats (case tm of None \<Rightarrow> tgm | Some t \<Rightarrow> t))
                  (literal ops 0.8)) sample of
             Fin q \<Rightarrow> Inr (max 1 \<lfloor>q\<rfloor>)
           | PosInf \<Rightarrow> Inl (OverflowError ''cannot convert float infinity to integer'')
           | NegInf \<Rightarrow> Inl (OverflowError ''cannot convert float infinity to integer'')
           | NaN \<Rightarrow> Inl (ValueError ''cannot convert float NaN to integer'')) \<and>
   (get_optimal_batch_size ops stats tgm sample tm = Inr n \<longrightarrow> 1 \<le> n)"
proof -
  let ?q = "fdiv ops (fmul ops (available_memory ops stats (case tm of None \<Rightarrow> tgm | Some t \<Rightarrow> t))
                        (literal ops 0.8)) sample"
  show ?thesis
  proof (cases "sample = Fin 0")
    case True
    then show ?thesis by (simp add: get_optimal_batch_size_def float_div_def)
  next
    case False
    then show ?thesis
      by (cases ?q) (auto simp: get_optimal_batch_size_def float_div_def max_truncation)
  qed
qed

text \<open>
  Two runs: a 6 GB card with 1 GB allocated and an estimate of half a GB gives 8; no
  device and a negative target give 1. (Double arithmetic returns the same on these
  inputs: \<open>5.0 * 0.8\<close> is \<open>4.0\<close> and \<open>-1.6 / 0.5\<close> is \<open>-3.2\<close>.)
\<close>

theorem batch_size_when_returned_witness:
  "get_optimal_batch_size exact_ops small_gpu (Fin 5.5) (Fin 0.5) None = Inr 8 \<and> (1::int) \<le> 8 \<and>
   get_optimal_batch_size exact_ops no_gpu (Fin 5.5) (Fin 0.5) (Some (Fin (-2))) = Inr 1"
proof -
  have a: "get_optimal_batch_size exact_ops small_gpu (Fin 5.5) (Fin 0.5) None = Inr 8"
    by (simp add: get_optimal_batch_size_def float_div_def available_memory_def py_min_def
          exact_ops_def on_finite_def small_gpu_def)
  have b: "get_optimal_batch_size exact_ops no_gpu (Fin 5.5) (Fin 0.5) (Some (Fin (-2))) = Inr 1"
    by (simp add: get_optimal_batch_size_def float_div_def available_memory_def py_min_def
          exact_ops_def on_finite_def no_gpu_def)
  from batch_size_when_returned[of exact_ops small_gpu "Fin 5.5" "Fin 0.5" None 8] a b
  show ?thesis by simp
qed

text \<open>
  With a per-sample estimate of zero the division raises, in every arithmetic, and no
  batch size is returned.
\<close>

theorem batch_size_zero_estimate_raises:
  "\<forall>ops. get_optimal_batch_size ops small_gpu (Fin 5.5) (Fin 0) None =
           Inl (ZeroDivisionError ''float division by zero'')"
  by (simp add: get_optimal_batch_size_def float_div_def)

text \<open>
  Claim C8 (configuration policy). For every memory reading and target budget the
  configuration's memory ceiling for device 0 is \<open>min(total - 0.5, target)\<close> (stored as
  its rendering in GB); 8-bit loading is switched on and the result cache off exactly
  when the device total is below 8 GB; and the configuration depends on the reading
  through the device total only, so equal totals and targets give equal configurations.
\<close>

theorem config_policy:
  "optimize_model_config stats target ''max_memory'' =
      Some (MaxMemory [(0, Rendered (min (gpu_total stats - 0.5) target) ''GB'')]) \<and>
   optimize_model_config stats target ''load_in_8bit'' =
      (if gpu_total stats < 8 then Some (Flag True) else None) \<and>
   optimize_model_config stats target ''use_cache'' =
      (if gpu_total stats < 8 then Some (Flag False) else None) \<and>
   (gpu_total stats' = gpu_total stats \<longrightarrow>
      optimize_model_config stats' target = optimize_model_config stats target)"
  by (simp add: optimize_model_config_def Let_def)

theorem config_policy_witness:
  "optimize_model_config small_gpu 5.5 ''max_memory'' = Some (MaxMemory [(0, Rendered 5.5 ''GB'')]) \<and>
   optimize_model_config small_gpu 5.5 ''load_in_8bit'' = Some (Flag True) \<and>
   optimize_model_config small_gpu 5.5 ''use_cache'' = Some (Flag False) \<and>
   gpu_total (small_gpu\<lparr>gpu_allocated := 3\<rparr>) = gpu_total small_gpu \<and>
   optimize_model_config (small_gpu\<lparr>gpu_allocated := 3\<rparr>) 5.5 = optimize_model_config small_gpu 5.5"
  using config_policy[of small_gpu "5.5" "small_gpu\<lparr>gpu_allocated := 3\<rparr>"]
  by (simp add: small_gpu_def)

end
